theory Spec2Isabelle
  imports Complex_Main
begin

section \<open>The External Trigger client of examples/external-trigger-example.py\<close>

text \<open>
  The script triggers a job over HTTP and polls its status until the job has finished
  or the attempt budget is used up. The embedding follows the Python source function by
  function. Everything the script does beyond computing a value is explicit:
  \<^item> the remote service and the clock are a \<open>world\<close>: the replies the service is
    going to give, in the order the requests are sent, and the trace of what the script
    has done so far (requests, sleeps, printed progress lines); along one run the
    answers of any service form such a sequence;
  \<^item> every exception is a value of type \<open>error\<close>, and a function that can raise
    returns \<open>error + 'a\<close> (\<open>Inl\<close> the exception);
  \<^item> the \<^verbatim>\<open>for\<close> loop over \<^verbatim>\<open>range(1, max_attempts + 1)\<close> is a recursion over the
    list \<open>[1..max_attempts]\<close>.
\<close>

subsection \<open>JSON values as Python sees them\<close>

text \<open>
  \<^verbatim>\<open>response.json()\<close> yields \<^verbatim>\<open>None\<close>, a bool, an int, a float, a str, a list or a
  dict with string keys. A dict is the list of its items, looked up with \<open>map_of\<close>.
  A float is modelled by its value: the only thing the script asks of a float is
  whether it is zero. (Python also reads \<^verbatim>\<open>NaN\<close> and the infinities; here they are
  any float other than zero.)
\<close>

datatype json =
    JNull
  | JBool bool
  | JInt int
  | JFloat rat
  | JStr string
  | JArr "json list"
  | JObj "(string \<times> json) list"

datatype error =
    HTTPError int          \<comment> \<open>\<^verbatim>\<open>requests.HTTPError\<close>, raised by \<^verbatim>\<open>raise_for_status\<close>, with the status code\<close>
  | RequestException       \<comment> \<open>any other failure of \<^verbatim>\<open>requests.get/post\<close> (no connection, ...)\<close>
  | JSONDecodeError        \<comment> \<open>raised by \<^verbatim>\<open>response.json()\<close> on a body that is not JSON\<close>
  | KeyError string
  | TypeError
  | ValueError
  | AttributeError
  | TimeoutError int       \<comment> \<open>with the number of seconds named in its message\<close>

text \<open>\<^verbatim>\<open>x[key]\<close> for a string key: only a dict can be subscripted by a string.\<close>

fun subscript :: "json \<Rightarrow> string \<Rightarrow> error + json" where
  "subscript (JObj kvs) key = (case map_of kvs key of None \<Rightarrow> Inl (KeyError key) | Some v \<Rightarrow> Inr v)"
| "subscript _ key = Inl TypeError"

text \<open>\<^verbatim>\<open>d.get(key, default)\<close> on the items of a dict.\<close>

definition dict_get :: "(string \<times> json) list \<Rightarrow> string \<Rightarrow> json \<Rightarrow> json" where
  "dict_get kvs key dflt = (case map_of kvs key of None \<Rightarrow> dflt | Some v \<Rightarrow> v)"

text \<open>Truth value of a JSON value in \<^verbatim>\<open>if batch_progress:\<close>.\<close>

fun truthy :: "json \<Rightarrow> bool" where
  "truthy JNull = False"
| "truthy (JBool b) = b"
| "truthy (JInt n) = (n \<noteq> 0)"
| "truthy (JFloat q) = (q \<noteq> 0)"
| "truthy (JStr s) = (s \<noteq> [])"
| "truthy (JArr xs) = (xs \<noteq> [])"
| "truthy (JObj kvs) = (kvs \<noteq> [])"

text \<open>
  The format specification \<^verbatim>\<open>{progress:.1f}\<close>: numbers (and bools, which are ints)
  accept it, a str raises \<^verbatim>\<open>ValueError\<close>, everything else \<^verbatim>\<open>TypeError\<close>. The value is
  returned as it is; rendering it to one decimal is left to the reader of the trace.
\<close>

fun format_1f :: "json \<Rightarrow> error + json" where
  "format_1f (JInt n) = Inr (JInt n)"
| "format_1f (JFloat q) = Inr (JFloat q)"
| "format_1f (JBool b) = Inr (JBool b)"
| "format_1f (JStr s) = Inl ValueError"
| "format_1f _ = Inl TypeError"

subsection \<open>The world: the service's replies and the trace of effects\<close>

datatype http_method = GET | POST

record http_response =
  status_code :: int
  json_body :: "json option"   \<comment> \<open>\<open>None\<close>: the body is not valid JSON\<close>

datatype event =
    Request http_method string
  | Sleep int
  | StatusLine (line_attempt: int) (line_job_name: json) (line_job_type: json) (line_status: json)
      \<comment> \<open>\<^verbatim>\<open>[{attempt}] Job: {job_name} ({job_type}) - Status: {job_status}\<close>\<close>
  | BatchLine json json json json
      \<comment> \<open>\<^verbatim>\<open>Batch Progress: {succeeded} succeeded, {failed} failed, {pending} pending ({progress:.1f}%)\<close>\<close>

record world =
  pending :: "nat \<Rightarrow> http_response option"
    \<comment> \<open>the outcome of the next request, of the one after it, ...; \<open>None\<close>: no response arrives\<close>
  trace :: "event list"
    \<comment> \<open>what has happened so far, oldest first\<close>

definition emit :: "event \<Rightarrow> world \<Rightarrow> world" where
  "emit e w = w\<lparr>trace := trace w @ [e]\<rparr>"

text \<open>\<^verbatim>\<open>requests.get(url)\<close> and \<^verbatim>\<open>requests.post(url)\<close>: one round trip.\<close>

definition http_request :: "http_method \<Rightarrow> string \<Rightarrow> world \<Rightarrow> (error + http_response) \<times> world" where
  "http_request m url w =
     (case pending w 0 of None \<Rightarrow> Inl RequestException | Some r \<Rightarrow> Inr r,
      w\<lparr>pending := (\<lambda>n. pending w (Suc n)), trace := trace w @ [Request m url]\<rparr>)"

text \<open>\<^verbatim>\<open>response.raise_for_status()\<close> of the requests library: 4xx and 5xx raise.\<close>

definition raise_for_status :: "http_response \<Rightarrow> error + unit" where
  "raise_for_status r =
     (if 400 \<le> status_code r \<and> status_code r < 600 then Inl (HTTPError (status_code r))
      else Inr ())"

definition response_json :: "http_response \<Rightarrow> error + json" where
  "response_json r = (case json_body r of None \<Rightarrow> Inl JSONDecodeError | Some j \<Rightarrow> Inr j)"


subsection \<open>ExternalTriggerClient\<close>

record client =
  base_url :: string
  api_path :: string

text \<open>\<^verbatim>\<open>s.rstrip(chars)\<close>: drop the longest suffix made of characters in \<open>chars\<close>.\<close>

definition rstrip :: "string \<Rightarrow> string \<Rightarrow> string" where
  "rstrip chars s = rev (dropWhile (\<lambda>c. c \<in> set chars) (rev s))"

definition ExternalTriggerClient :: "string \<Rightarrow> client" where
  "ExternalTriggerClient url =
     \<lparr>base_url = rstrip ''/'' url, api_path = rstrip ''/'' url @ ''/api/external-trigger''\<rparr>"


definition status_url :: "client \<Rightarrow> string \<Rightarrow> string" where
  "status_url c job_id = api_path c @ ''/'' @ job_id @ ''/status''"


definition get_job_status :: "client \<Rightarrow> string \<Rightarrow> world \<Rightarrow> (error + json) \<times> world" where
  "get_job_status c job_id w =
     (case http_request GET (status_url c job_id) w of
        (Inl e, w1) \<Rightarrow> (Inl e, w1)
      | (Inr response, w1) \<Rightarrow>
          (case raise_for_status response of
             Inl e \<Rightarrow> (Inl e, w1)
           | Inr _ \<Rightarrow> (response_json response, w1)))"

text \<open>
  \<^verbatim>\<open>_print_status(attempt, status)\<close>. The first line is printed before the batch
  progress is looked at, so it stays in the trace when the second line raises.
\<close>

definition print_status :: "int \<Rightarrow> json \<Rightarrow> world \<Rightarrow> (error + unit) \<times> world" where
  "print_status attempt status w =
     (case status of
        JObj kvs \<Rightarrow>
          (let job_name = dict_get kvs ''jobName'' (JStr ''Unknown'');
               job_type = dict_get kvs ''jobType'' (JStr ''Unknown'');
               job_status = dict_get kvs ''status'' (JStr ''Unknown'');
               w1 = emit (StatusLine attempt job_name job_type job_status) w;
               batch_progress = dict_get kvs ''batchProgress'' JNull
           in if truthy batch_progress then
                (case subscript batch_progress ''total'' of Inl e \<Rightarrow> (Inl e, w1) | Inr total' \<Rightarrow>
                 (case subscript batch_progress ''succeeded'' of Inl e \<Rightarrow> (Inl e, w1) | Inr succeeded \<Rightarrow>
                  (case subscript batch_progress ''failed'' of Inl e \<Rightarrow> (Inl e, w1) | Inr failed \<Rightarrow>
                   (case subscript batch_progress ''pending'' of Inl e \<Rightarrow> (Inl e, w1) | Inr pending' \<Rightarrow>
                    (case subscript batch_progress ''progress'' of Inl e \<Rightarrow> (Inl e, w1) | Inr progress \<Rightarrow>
                     (case format_1f progress of Inl e \<Rightarrow> (Inl e, w1) | Inr p \<Rightarrow>
                        (Inr (), emit (BatchLine succeeded failed pending' p) w1)))))))
              else (Inr (), w1))
      | _ \<Rightarrow> (Inl AttributeError, w))"




subsection \<open>main\<close>



subsection \<open>Vocabulary for the statements\<close>

text \<open>
  What \<^verbatim>\<open>trigger_job\<close> and \<^verbatim>\<open>get_job_status\<close> return when the service's answer to their
  request is \<open>x\<close> (lemmas \<open>get_job_status_eq\<close> and \<open>trigger_job_eq\<close>).
\<close>

definition reply :: "http_response option \<Rightarrow> error + json" where
  "reply x =
     (case x of
        None \<Rightarrow> Inl RequestException
      | Some r \<Rightarrow> (case raise_for_status r of Inl e \<Rightarrow> Inl e | Inr _ \<Rightarrow> response_json r))"

text \<open>
  A record that \<^verbatim>\<open>_print_status\<close> prints without raising (lemmas
  \<open>print_status_displayable\<close> and \<open>print_status_raises\<close>): a dict whose \<^verbatim>\<open>batchProgress\<close> is absent, or falsy, or a
  dict with the five entries the second line reads, \<^verbatim>\<open>progress\<close> being a number.
\<close>

fun is_number :: "json \<Rightarrow> bool" where
  "is_number (JInt n) = True"
| "is_number (JFloat q) = True"
| "is_number (JBool b) = True"
| "is_number _ = False"

definition complete_batch :: "json \<Rightarrow> bool" where
  "complete_batch bp =
     (case bp of
        JObj b \<Rightarrow>
          map_of b ''total'' \<noteq> None \<and> map_of b ''succeeded'' \<noteq> None \<and>
          map_of b ''failed'' \<noteq> None \<and> map_of b ''pending'' \<noteq> None \<and>
          (case map_of b ''progress'' of None \<Rightarrow> False | Some p \<Rightarrow> is_number p)
      | _ \<Rightarrow> False)"

definition displayable :: "json \<Rightarrow> bool" where
  "displayable status =
     (case status of
        JObj kvs \<Rightarrow>
          (case map_of kvs ''batchProgress'' of
             None \<Rightarrow> True
           | Some bp \<Rightarrow> \<not> truthy bp \<or> complete_batch bp)
      | _ \<Rightarrow> False)"



text \<open>
  Reading a trace: the number of calls of \<^verbatim>\<open>get_job_status\<close> (each sends one \<open>GET\<close>),
  of sleeps and of printed status lines; \<open>control\<close> keeps the requests and the sleeps,
  in order, and drops what was printed; \<open>rounds n es\<close> is \<open>es\<close> repeated \<open>n\<close> times.
\<close>

fun is_get :: "event \<Rightarrow> bool" where
  "is_get (Request GET url) = True"
| "is_get _ = False"

fun is_sleep :: "event \<Rightarrow> bool" where
  "is_sleep (Sleep secs) = True"
| "is_sleep _ = False"

fun is_request :: "event \<Rightarrow> bool" where
  "is_request (Request m url) = True"
| "is_request _ = False"

fun is_status_line :: "event \<Rightarrow> bool" where
  "is_status_line (StatusLine a n t s) = True"
| "is_status_line _ = False"

definition get_calls :: "event list \<Rightarrow> nat" where
  "get_calls t = length (filter is_get t)"

definition sleeps :: "event list \<Rightarrow> nat" where
  "sleeps t = length (filter is_sleep t)"

definition status_lines :: "event list \<Rightarrow> nat" where
  "status_lines t = length (filter is_status_line t)"

definition control :: "event list \<Rightarrow> event list" where
  "control t = filter (\<lambda>e. is_request e \<or> is_sleep e) t"

definition rounds :: "nat \<Rightarrow> event list \<Rightarrow> event list" where
  "rounds n es = concat (replicate n es)"



text \<open>
  Scripted services for concrete runs: the answers of \<open>xs\<close> in order, then \<open>x\<close> for
  ever; nothing has happened yet. \<open>answer code body\<close> is a response with a JSON body,
  \<open>job_record s\<close> a status record of a job in state \<open>s\<close>, \<open>local_client\<close> the client
  \<^verbatim>\<open>main\<close> constructs.
\<close>

definition scripted :: "http_response option list \<Rightarrow> http_response option \<Rightarrow> world" where
  "scripted xs x = \<lparr>pending = (\<lambda>n. if n < length xs then xs ! n else x), trace = []\<rparr>"

definition answer :: "int \<Rightarrow> json \<Rightarrow> http_response option" where
  "answer code body = Some \<lparr>status_code = code, json_body = Some body\<rparr>"


definition local_client :: client where
  "local_client = ExternalTriggerClient ''http://localhost:8080''"


section \<open>Properties\<close>

subsection \<open>One request, one iteration\<close>


lemma get_job_status_eq:
  "get_job_status c job_id w =
     (reply (pending w 0),
      w\<lparr>pending := (\<lambda>n. pending w (Suc n)), trace := trace w @ [Request GET (status_url c job_id)]\<rparr>)"
  by (simp add: get_job_status_def http_request_def reply_def split: option.splits sum.splits)


lemma control_append [simp]: "control (xs @ ys) = control xs @ control ys"
  by (simp add: control_def)

lemma status_lines_append [simp]: "status_lines (xs @ ys) = status_lines xs + status_lines ys"
  by (simp add: status_lines_def)


lemma print_status_raises:
  assumes "\<not> displayable status"
  shows "\<exists>e. fst (print_status attempt status w) = Inl e"
proof (cases status)
  case (JObj kvs)
  with assms obtain bp where bp: "map_of kvs ''batchProgress'' = Some bp" "truthy bp" "\<not> complete_batch bp"
    by (auto simp: displayable_def split: option.splits)
  show ?thesis
  proof (cases bp)
    case (JObj b)
    with bp show ?thesis
      by (cases "map_of b ''progress''"; cases "the (map_of b ''progress'')")
        (auto simp: \<open>status = JObj kvs\<close> print_status_def Let_def dict_get_def complete_batch_def
          split: option.splits)
  qed (use bp in \<open>simp_all add: \<open>status = JObj kvs\<close> print_status_def Let_def dict_get_def\<close>)
qed (simp_all add: print_status_def)





subsection \<open>Several iterations\<close>


lemma rounds_0 [simp]: "rounds 0 es = []"
  by (simp add: rounds_def)



subsection \<open>Counting in a trace\<close>



lemma get_calls_simps [simp]:
  "get_calls [] = 0"
  "get_calls (e # es) = (if is_get e then 1 else 0) + get_calls es"
  by (simp_all add: get_calls_def)

lemma sleeps_simps [simp]:
  "sleeps [] = 0"
  "sleeps (e # es) = (if is_sleep e then 1 else 0) + sleeps es"
  by (simp_all add: sleeps_def)

lemma status_lines_simps [simp]:
  "status_lines [] = 0"
  "status_lines (e # es) = (if is_status_line e then 1 else 0) + status_lines es"
  by (simp_all add: status_lines_def)



subsection \<open>The three ways out of the wait\<close>








subsection \<open>Two runs side by side\<close>




subsection \<open>Stripping the base URL\<close>



subsection \<open>The status line and the exit codes\<close>

lemma print_status_first_line:
  "\<exists>w'. snd (print_status attempt (JObj kvs) w) = w' \<and>
        take (Suc (length (trace w))) (trace w') =
          trace w @ [StatusLine attempt (dict_get kvs ''jobName'' (JStr ''Unknown''))
                       (dict_get kvs ''jobType'' (JStr ''Unknown''))
                       (dict_get kvs ''status'' (JStr ''Unknown''))]"
  by (simp add: print_status_def Let_def emit_def split: sum.splits)



section \<open>The claims\<close>

subsection \<open>Leaving the loop on a terminal status\<close>



subsection \<open>Using up the attempts\<close>



subsection \<open>Sleeps on the way to the timeout\<close>




subsection \<open>Payloads that cannot be decoded\<close>




subsection \<open>A failing poll\<close>



subsection \<open>Records without a name or a type\<close>

text \<open>
  Claim C6. A success payload that is a JSON object is returned by \<^verbatim>\<open>get_job_status\<close>
  as it is, whether or not it has \<^verbatim>\<open>jobName\<close> and \<^verbatim>\<open>jobType\<close>: their absence is no
  error. When the record is displayed, the status line shows \<^verbatim>\<open>Unknown\<close> for each of
  the two that is absent (and the value itself for one that is present), and the
  absence does not make the display raise.
\<close>

theorem absent_labels_shown_as_unknown:
  assumes "pending w 0 = Some r" and "200 \<le> status_code r" and "status_code r < 300"
    and "json_body r = Some (JObj kvs)"
  shows "fst (get_job_status c job_id w) = Inr (JObj kvs) \<and>
         (\<exists>job_name job_type job_status.
            trace (snd (print_status attempt (JObj kvs) u)) ! length (trace u) =
              StatusLine attempt job_name job_type job_status \<and>
            (map_of kvs ''jobName'' = None \<longrightarrow> job_name = JStr ''Unknown'') \<and>
            (map_of kvs ''jobType'' = None \<longrightarrow> job_type = JStr ''Unknown'') \<and>
            (\<forall>v. map_of kvs ''jobName'' = Some v \<longrightarrow> job_name = v) \<and>
            (\<forall>v. map_of kvs ''jobType'' = Some v \<longrightarrow> job_type = v)) \<and>
         (map_of kvs ''batchProgress'' = None \<longrightarrow> fst (print_status attempt (JObj kvs) u) = Inr ())"
proof -
  from assms have "fst (get_job_status c job_id w) = Inr (JObj kvs)"
    by (simp add: get_job_status_eq reply_def raise_for_status_def response_json_def)
  moreover
  from print_status_first_line [of attempt kvs u]
  have "take (Suc (length (trace u))) (trace (snd (print_status attempt (JObj kvs) u))) =
      trace u @ [StatusLine attempt (dict_get kvs ''jobName'' (JStr ''Unknown''))
                    (dict_get kvs ''jobType'' (JStr ''Unknown''))
                    (dict_get kvs ''status'' (JStr ''Unknown''))]"
    by simp
  then have "take (Suc (length (trace u))) (trace (snd (print_status attempt (JObj kvs) u))) ! length (trace u) =
      StatusLine attempt (dict_get kvs ''jobName'' (JStr ''Unknown''))
        (dict_get kvs ''jobType'' (JStr ''Unknown''))
        (dict_get kvs ''status'' (JStr ''Unknown''))"
    by simp
  then have "trace (snd (print_status attempt (JObj kvs) u)) ! length (trace u) =
      StatusLine attempt (dict_get kvs ''jobName'' (JStr ''Unknown''))
        (dict_get kvs ''jobType'' (JStr ''Unknown''))
        (dict_get kvs ''status'' (JStr ''Unknown''))"
    by simp
  then have "\<exists>job_name job_type job_status.
      trace (snd (print_status attempt (JObj kvs) u)) ! length (trace u) =
        StatusLine attempt job_name job_type job_status \<and>
      (map_of kvs ''jobName'' = None \<longrightarrow> job_name = JStr ''Unknown'') \<and>
      (map_of kvs ''jobType'' = None \<longrightarrow> job_type = JStr ''Unknown'') \<and>
      (\<forall>v. map_of kvs ''jobName'' = Some v \<longrightarrow> job_name = v) \<and>
      (\<forall>v. map_of kvs ''jobType'' = Some v \<longrightarrow> job_type = v)"
    by (simp add: dict_get_def)
  moreover
  have "map_of kvs ''batchProgress'' = None \<longrightarrow> fst (print_status attempt (JObj kvs) u) = Inr ()"
    by (simp add: print_status_def Let_def dict_get_def)
  ultimately show ?thesis
    by blast
qed

theorem absent_labels_shown_as_unknown_witness:
  "fst (get_job_status local_client ''42'' (scripted [] (answer 200 (JObj [(''status'', JStr ''ENQUEUED'')])))) =
     Inr (JObj [(''status'', JStr ''ENQUEUED'')]) \<and>
   line_job_name (trace (snd (print_status 1 (JObj [(''status'', JStr ''ENQUEUED'')]) (scripted [] None))) ! 0) =
     JStr ''Unknown'' \<and>
   line_job_type (trace (snd (print_status 1 (JObj [(''status'', JStr ''ENQUEUED'')]) (scripted [] None))) ! 0) =
     JStr ''Unknown'' \<and>
   fst (print_status 1 (JObj [(''status'', JStr ''ENQUEUED'')]) (scripted [] None)) = Inr ()"
proof -
  let ?w = "scripted [] (answer 200 (JObj [(''status'', JStr ''ENQUEUED'')]))"
  have a: "pending ?w 0 = Some \<lparr>status_code = 200, json_body = Some (JObj [(''status'', JStr ''ENQUEUED'')])\<rparr>"
    by (simp add: scripted_def answer_def)
  from absent_labels_shown_as_unknown [OF a, where c = local_client and job_id = "''42''"
      and attempt = 1 and u = "scripted [] None"]
  show ?thesis
    by (auto simp: scripted_def)
qed

subsection \<open>Exit codes\<close>



subsection \<open>The base URL\<close>




subsection \<open>The verbose flag\<close>




subsection \<open>No attempts at all\<close>



end
